theory Spec2Isabelle
  imports Main "HOL-Library.Word"
begin

section \<open>Data model of pkg/reqlog and pkg/proxy\<close>

text \<open>
  Bytes are 8-bit words. A \<^verbatim>\<open>ulid.ULID\<close> is a \<^verbatim>\<open>[16]byte\<close>; it is modelled as the 128-bit
  word its bytes spell in big-endian order, so that the zero value \<^verbatim>\<open>ulid.ULID{}\<close> is the
  word \<open>0\<close> and the byte-wise lexicographic \<^verbatim>\<open>Compare\<close> is the order of words.
\<close>

type_synonym byte = "8 word"
type_synonym ulid = "128 word"

definition ulid_Compare :: "ulid \<Rightarrow> ulid \<Rightarrow> int" where
  "ulid_Compare a b = (if a < b then - 1 else if a = b then 0 else 1)"

text \<open>
  Go errors: \<^verbatim>\<open>errors.New(msg)\<close> is \<open>Err msg\<close>, \<^verbatim>\<open>fmt.Errorf("msg: %w", err)\<close> is
  \<open>Wrap msg err\<close>, and \<open>Canceled\<close> is the sentinel \<^verbatim>\<open>context.Canceled\<close>.
  \<open>errors_Is_Canceled\<close> is \<^verbatim>\<open>errors.Is(err, context.Canceled)\<close>: it follows the chain of
  wrapped errors.
\<close>

datatype error = Err string | Wrap string error | Canceled

fun errors_Is_Canceled :: "error \<Rightarrow> bool" where
  "errors_Is_Canceled Canceled = True"
| "errors_Is_Canceled (Wrap msg err) = errors_Is_Canceled err"
| "errors_Is_Canceled (Err msg) = False"

text \<open>
  An \<^verbatim>\<open>io.ReadCloser\<close>: the bytes not yet read, and the error (if any) that a read meets
  after them instead of end-of-file. \<open>ReadAll\<close> consumes the reader and returns either
  all the bytes or the error; \<open>NewBuffer\<close> is \<^verbatim>\<open>ioutil.NopCloser(bytes.NewBuffer(body))\<close>,
  which never fails.
\<close>

record reader =
  pending :: "byte list"
  rerr :: "error option"

definition ReadAll :: "reader \<Rightarrow> (error + byte list) \<times> reader" where
  "ReadAll rd =
     ((case rerr rd of None \<Rightarrow> Inr (pending rd) | Some err \<Rightarrow> Inl err),
      rd\<lparr>pending := []\<rparr>)"

definition NewBuffer :: "byte list \<Rightarrow> reader" where
  "NewBuffer body = \<lparr>pending = body, rerr = None\<rparr>"

text \<open>
  \<^verbatim>\<open>http.Header\<close> is a \<^verbatim>\<open>map[string][]string\<close>. \<open>Header_Get\<close> is \<^verbatim>\<open>Header.Get\<close> for a key
  that is already in canonical form (as the literal \<^verbatim>\<open>"Content-Encoding"\<close> is): the first
  value stored under the key, or the empty string.
\<close>

type_synonym header = "string \<rightharpoonup> string list"

definition Header_Get :: "header \<Rightarrow> string \<Rightarrow> string" where
  "Header_Get h key = (case h key of None \<Rightarrow> [] | Some [] \<Rightarrow> [] | Some (v # vs) \<Rightarrow> v)"

record url =
  url_Scheme :: string
  url_Host :: string
  url_Path :: string
  url_RawQuery :: string

text \<open>
  The request context is a map from keys to values of any type. The two keys of the
  source, \<^verbatim>\<open>reqlog.LogBypassedKey\<close> and \<^verbatim>\<open>proxy.ReqLogIDKey\<close>, are both the constant 0, but
  of two different named types, so they are different keys. The type assertions
  \<^verbatim>\<open>v, _ := ctx.Value(k).(bool)\<close> and \<^verbatim>\<open>v, ok := ctx.Value(k).(ulid.ULID)\<close> are
  \<open>Value_bool\<close> and \<open>Value_ULID\<close>.
\<close>

datatype ctx_key = LogBypassedKey | ReqLogIDKey | OtherKey string

datatype ctx_val = VBool bool | VULID ulid | VOther string

type_synonym ctx = "ctx_key \<rightharpoonup> ctx_val"

definition Value_bool :: "ctx \<Rightarrow> ctx_key \<Rightarrow> bool" where
  "Value_bool c k = (case c k of Some (VBool b) \<Rightarrow> b | _ \<Rightarrow> False)"

definition Value_ULID :: "ctx \<Rightarrow> ctx_key \<Rightarrow> ulid option" where
  "Value_ULID c k = (case c k of Some (VULID u) \<Rightarrow> Some u | _ \<Rightarrow> None)"

definition WithValue :: "ctx \<Rightarrow> ctx_key \<Rightarrow> ctx_val \<Rightarrow> ctx" where
  "WithValue c k v = c(k \<mapsto> v)"

text \<open>
  \<^verbatim>\<open>http.Request\<close> and \<^verbatim>\<open>http.Response\<close>, with the fields the two packages touch. A nil
  request body is \<open>None\<close>. The response holds the request it answers
  (\<^verbatim>\<open>res.Request\<close>), from which the response side reads the context.
\<close>

record request =
  req_Method :: string
  req_URL :: url
  req_Proto :: string
  req_Header :: header
  req_Body :: "reader option"
  req_Host :: string
  req_ctx :: ctx

record response =
  res_Proto :: string
  res_StatusCode :: int
  res_Status :: string
  res_Header :: header
  res_Body :: reader
  res_Request :: request

record ResponseLog =
  resLog_Proto :: string
  resLog_StatusCode :: int
  resLog_Status :: string
  resLog_Header :: header
  resLog_Body :: "byte list"

record RequestLog =
  reqLog_ID :: ulid
  reqLog_ProjectID :: ulid
  reqLog_URL :: url
  reqLog_Method :: string
  reqLog_Proto :: string
  reqLog_Header :: header
  reqLog_Body :: "byte list"
  reqLog_Response :: "ResponseLog option"

text \<open>
  The \<^verbatim>\<open>Repository\<close> and the scope are interfaces whose implementations are not part of
  these packages: the service takes them as parameters. A repository operation gets the
  repository's state and returns the error (if any) and the new state. The scope is its
  \<^verbatim>\<open>Match(req, body)\<close>.
\<close>

record 'r Repository =
  StoreRequestLog :: "'r \<Rightarrow> RequestLog \<Rightarrow> error option \<times> 'r"
  StoreResponseLog :: "'r \<Rightarrow> ulid \<Rightarrow> ResponseLog \<Rightarrow> error option \<times> 'r"

record 'r service =
  bypassOutOfScopeRequests :: bool
  activeProjectID :: ulid
  scope :: "request \<Rightarrow> byte list \<Rightarrow> bool"
  repo :: "'r Repository"

text \<open>
  What the logger acts on besides the request and the response: the repository's state,
  the lines written to \<^verbatim>\<open>svc.logger\<close>, the goroutines started by the response modifier
  (each is the pair of arguments of its \<^verbatim>\<open>storeResponse\<close> call), and the source of
  identifiers: \<open>w_ulids n\<close> is what the \<open>n\<close>-th call of
  \<^verbatim>\<open>ulid.MustNew(ulid.Timestamp(time.Now()), ulidEntropy)\<close> yields. A line of the log
  is its level, its message and, at error level, the error it reports.
\<close>

datatype log_entry = Errorw string error | Debugw string

record 'r world =
  w_repo :: 'r
  w_logs :: "log_entry list"
  w_spawned :: "(ulid \<times> response) list"
  w_ulids :: "nat \<Rightarrow> ulid"
  w_minted :: nat

type_synonym 'w RequestModifyFunc = "'w \<Rightarrow> request \<Rightarrow> 'w \<times> request"
type_synonym 'w RequestModifyMiddleware = "'w RequestModifyFunc \<Rightarrow> 'w RequestModifyFunc"
type_synonym 'w ResponseModifyFunc = "'w \<Rightarrow> response \<Rightarrow> error option \<times> 'w \<times> response"
type_synonym 'w ResponseModifyMiddleware = "'w ResponseModifyFunc \<Rightarrow> 'w ResponseModifyFunc"

section \<open>pkg/reqlog\<close>

definition SetActiveProjectID :: "'r service \<Rightarrow> ulid \<Rightarrow> 'r service" where
  "SetActiveProjectID svc id' = svc\<lparr>activeProjectID := id'\<rparr>"

definition SetBypassOutOfScopeRequests :: "'r service \<Rightarrow> bool \<Rightarrow> 'r service" where
  "SetBypassOutOfScopeRequests svc bypass = svc\<lparr>bypassOutOfScopeRequests := bypass\<rparr>"

definition logw :: "'r world \<Rightarrow> log_entry \<Rightarrow> 'r world" where
  "logw w entry = w\<lparr>w_logs := w_logs w @ [entry]\<rparr>"

text \<open>
  \<^verbatim>\<open>RequestModifier\<close> is modelled in three parts, in the order of its body.
  \<open>RequestModifier_capture\<close> is the cloning and the capture of the body: it
  yields either the read error and the request as the failed read leaves it, or the
  captured bytes, the live request with its body restored, and the clone (which shares
  everything but the body with the live request, and gets a buffer of its own).
\<close>

definition RequestModifier_capture ::
  "request \<Rightarrow> error \<times> request + byte list \<times> request \<times> request" where
  "RequestModifier_capture req =
     (let clone = req in
      case req_Body req of
        None \<Rightarrow> Inr ([], req, clone)
      | Some rd \<Rightarrow>
          (case ReadAll rd of
             (Inl err, rd') \<Rightarrow> Inl (err, req\<lparr>req_Body := Some rd'\<rparr>)
           | (Inr body, rd') \<Rightarrow>
               Inr (body, req\<lparr>req_Body := Some (NewBuffer body)\<rparr>,
                    clone\<lparr>req_Body := Some (NewBuffer body)\<rparr>)))"

text \<open>
  \<open>RequestModifier_log\<close> is the rest of the function, from the bypass checks to its
  end: \<open>req\<close> is the live request, \<open>clone\<close> and \<open>body\<close> are the clone and the
  captured bytes. The context argument of \<^verbatim>\<open>StoreRequestLog\<close> is left out.
\<close>

definition RequestModifier_log ::
  "'r service \<Rightarrow> 'r world \<Rightarrow> request \<Rightarrow> request \<Rightarrow> byte list \<Rightarrow> 'r world \<times> request" where
  "RequestModifier_log svc w req clone body =
     (if ulid_Compare (activeProjectID svc) 0 = 0 then
        (logw w (Debugw ''Bypassed logging: no active project.''),
         req\<lparr>req_ctx := WithValue (req_ctx req) LogBypassedKey (VBool True)\<rparr>)
      else if bypassOutOfScopeRequests svc \<and> \<not> scope svc clone body then
        (logw w (Debugw ''Bypassed logging: request doesn't match any scope rules.''),
         req\<lparr>req_ctx := WithValue (req_ctx req) LogBypassedKey (VBool True)\<rparr>)
      else
        (let reqLog = \<lparr>reqLog_ID = w_ulids w (w_minted w),
                       reqLog_ProjectID = activeProjectID svc,
                       reqLog_URL = req_URL clone,
                       reqLog_Method = req_Method clone,
                       reqLog_Proto = req_Proto clone,
                       reqLog_Header = req_Header clone,
                       reqLog_Body = body,
                       reqLog_Response = None\<rparr>;
             w1 = w\<lparr>w_minted := Suc (w_minted w)\<rparr>
         in case StoreRequestLog (repo svc) (w_repo w1) reqLog of
              (Some err, r') \<Rightarrow>
                (logw (w1\<lparr>w_repo := r'\<rparr>) (Errorw ''Failed to store request log.'' err), req)
            | (None, r') \<Rightarrow>
                (logw (w1\<lparr>w_repo := r'\<rparr>) (Debugw ''Stored request log.''),
                 req\<lparr>req_ctx := WithValue (req_ctx req) ReqLogIDKey (VULID (reqLog_ID reqLog))\<rparr>)))"

text \<open>
  \<^verbatim>\<open>RequestModifier\<close>: run the inner chain, capture the body (a read error is logged and
  ends the modifier), then the bypass checks and the store.
\<close>

definition RequestModifier ::
  "'r service \<Rightarrow> ('r world) RequestModifyFunc \<Rightarrow> ('r world) RequestModifyFunc" where
  "RequestModifier svc next = (\<lambda>w0 req0.
     case next w0 req0 of (w, req) \<Rightarrow>
       (case RequestModifier_capture req of
          Inl (err, req') \<Rightarrow>
            (logw w (Errorw ''Failed to read request body for logging.'' err), req')
        | Inr (body, req', clone) \<Rightarrow> RequestModifier_log svc w req' clone body))"

text \<open>
  \<^verbatim>\<open>ResponseModifier\<close>. The goroutine it starts is recorded in \<open>w_spawned\<close> with the
  arguments of its \<^verbatim>\<open>storeResponse\<close> call: the request log's identifier and the clone,
  whose body is a buffer of its own over the bytes read.
\<close>

definition ResponseModifier ::
  "'r service \<Rightarrow> ('r world) ResponseModifyFunc \<Rightarrow> ('r world) ResponseModifyFunc" where
  "ResponseModifier svc next = (\<lambda>w0 res0.
     case next w0 res0 of
       (Some err, w, res) \<Rightarrow> (Some err, w, res)
     | (None, w, res) \<Rightarrow>
         if Value_bool (req_ctx (res_Request res)) LogBypassedKey then (None, w, res)
         else
           (case Value_ULID (req_ctx (res_Request res)) ReqLogIDKey of
              None \<Rightarrow> (Some (Err ''reqlog: request is missing ID''), w, res)
            | Some reqLogID \<Rightarrow>
                (let clone = res in
                 case ReadAll (res_Body res) of
                   (Inl err, rd') \<Rightarrow>
                     (Some (Wrap ''reqlog: could not read response body'' err), w,
                      res\<lparr>res_Body := rd'\<rparr>)
                 | (Inr body, rd') \<Rightarrow>
                     (None,
                      w\<lparr>w_spawned := w_spawned w @ [(reqLogID, clone\<lparr>res_Body := NewBuffer body\<rparr>)]\<rparr>,
                      res\<lparr>res_Body := NewBuffer body\<rparr>))))"

text \<open>
  \<^verbatim>\<open>compress/gzip\<close> is a library: what \<^verbatim>\<open>gzip.NewReader\<close> followed by \<^verbatim>\<open>io.Copy\<close> makes of
  a body is a parameter \<open>gz\<close> of \<open>ParseHTTPResponse\<close>, with the three outcomes the
  source tells apart.
\<close>

datatype gzip_result = NewReaderError error | CopyError error | Decoded "byte list"

text \<open>
  \<^verbatim>\<open>ParseHTTPResponse\<close>. It replaces and drains \<^verbatim>\<open>res.Body\<close>; on success the model
  returns the response as it is left, beside the \<^verbatim>\<open>ResponseLog\<close>.
\<close>

definition ParseHTTPResponse ::
  "(reader \<Rightarrow> gzip_result) \<Rightarrow> response \<Rightarrow> error + ResponseLog \<times> response" where
  "ParseHTTPResponse gz res0 =
     (case (if Header_Get (res_Header res0) ''Content-Encoding'' = ''gzip'' then
              (case gz (res_Body res0) of
                 NewReaderError err \<Rightarrow> Inl (Wrap ''reqlog: could not create gzip reader'' err)
               | CopyError err \<Rightarrow>
                   Inl (Wrap ''reqlog: could not read gzipped response body'' err)
               | Decoded buf \<Rightarrow> Inr (res0\<lparr>res_Body := NewBuffer buf\<rparr>))
            else Inr res0) of
        Inl err \<Rightarrow> Inl err
      | Inr res \<Rightarrow>
          (case ReadAll (res_Body res) of
             (Inl err, rd') \<Rightarrow> Inl (Wrap ''reqlog: could not read body'' err)
           | (Inr body, rd') \<Rightarrow>
               Inr (\<lparr>resLog_Proto = res_Proto res,
                     resLog_StatusCode = res_StatusCode res,
                     resLog_Status = res_Status res,
                     resLog_Header = res_Header res,
                     resLog_Body = body\<rparr>,
                    res\<lparr>res_Body := rd'\<rparr>)))"

definition storeResponse ::
  "(reader \<Rightarrow> gzip_result) \<Rightarrow> 'r service \<Rightarrow> 'r \<Rightarrow> ulid \<Rightarrow> response \<Rightarrow> error option \<times> 'r" where
  "storeResponse gz svc r reqLogID res =
     (case ParseHTTPResponse gz res of
        Inl err \<Rightarrow> (Some err, r)
      | Inr (resLog, res') \<Rightarrow> StoreResponseLog (repo svc) r reqLogID resLog)"

text \<open>The body of the goroutine of \<^verbatim>\<open>ResponseModifier\<close>, run on its two arguments.\<close>

definition ResponseModifier_go ::
  "(reader \<Rightarrow> gzip_result) \<Rightarrow> 'r service \<Rightarrow> 'r world \<Rightarrow> ulid \<times> response \<Rightarrow> 'r world" where
  "ResponseModifier_go gz svc w task =
     (case task of (reqLogID, clone) \<Rightarrow>
        (case storeResponse gz svc (w_repo w) reqLogID clone of
           (Some err, r') \<Rightarrow> logw (w\<lparr>w_repo := r'\<rparr>) (Errorw ''Failed to store response log.'' err)
         | (None, r') \<Rightarrow> logw (w\<lparr>w_repo := r'\<rparr>) (Debugw ''Stored response log.'')))"

section \<open>pkg/proxy\<close>

record 'w Proxy =
  reqModifiers :: "'w RequestModifyMiddleware list"
  resModifiers :: "'w ResponseModifyMiddleware list"

text \<open>
  \<^verbatim>\<open>NewProxy\<close>, as far as the modifiers go: both lists start empty. The certificate
  configuration, the logger and the reverse-proxy handler are left out.
\<close>

definition NewProxy :: "'w Proxy" where
  "NewProxy = \<lparr>reqModifiers = [], resModifiers = []\<rparr>"

definition UseRequestModifier :: "'w Proxy \<Rightarrow> 'w RequestModifyMiddleware list \<Rightarrow> 'w Proxy" where
  "UseRequestModifier p fn = p\<lparr>reqModifiers := reqModifiers p @ fn\<rparr>"

definition UseResponseModifier :: "'w Proxy \<Rightarrow> 'w ResponseModifyMiddleware list \<Rightarrow> 'w Proxy" where
  "UseResponseModifier p fn = p\<lparr>resModifiers := resModifiers p @ fn\<rparr>"

text \<open>
  Modelled from the spec: \<^verbatim>\<open>nopReqModifier\<close> and \<^verbatim>\<open>nopResModifier\<close> are declared in a file
  of pkg/proxy that is not among the sources; the spec calls them the leaf no-op that
  terminates each chain.
\<close>

definition nopReqModifier :: "'w RequestModifyFunc" where
  "nopReqModifier w req = (w, req)"

definition nopResModifier :: "'w ResponseModifyFunc" where
  "nopResModifier w res = (None, w, res)"

text \<open>
  The loop \<^verbatim>\<open>for i := len(ms) - 1; i >= 0; i-- { fn = ms[i](fn) }\<close> of \<^verbatim>\<open>modifyRequest\<close>
  and of \<^verbatim>\<open>modifyResponse\<close>. The counter of the model is \<open>i + 1\<close>, so that the loop ends
  at \<open>0\<close>.
\<close>

fun modifyRequest_loop ::
  "'w RequestModifyMiddleware list \<Rightarrow> nat \<Rightarrow> 'w RequestModifyFunc \<Rightarrow> 'w RequestModifyFunc" where
  "modifyRequest_loop ms 0 fn = fn"
| "modifyRequest_loop ms (Suc i) fn = modifyRequest_loop ms i ((ms ! i) fn)"

fun modifyResponse_loop ::
  "'w ResponseModifyMiddleware list \<Rightarrow> nat \<Rightarrow> 'w ResponseModifyFunc \<Rightarrow> 'w ResponseModifyFunc" where
  "modifyResponse_loop ms 0 fn = fn"
| "modifyResponse_loop ms (Suc i) fn = modifyResponse_loop ms i ((ms ! i) fn)"

text \<open>The function \<^verbatim>\<open>fn\<close> that \<^verbatim>\<open>modifyRequest\<close> builds and then calls.\<close>

definition modifyRequest_fn :: "'w Proxy \<Rightarrow> 'w RequestModifyFunc" where
  "modifyRequest_fn p =
     modifyRequest_loop (reqModifiers p) (length (reqModifiers p)) nopReqModifier"

definition modifyRequest :: "'w Proxy \<Rightarrow> 'w \<Rightarrow> request \<Rightarrow> 'w \<times> request" where
  "modifyRequest p w r0 =
     (let r1 = (if url_Scheme (req_URL r0) = [] then
                  r0\<lparr>req_URL := (req_URL r0)\<lparr>url_Host := req_Host r0, url_Scheme := ''https''\<rparr>\<rparr>
                else r0);
          r2 = r1\<lparr>req_Header := (req_Header r1)(''X-Forwarded-For'' \<mapsto> [])\<rparr>
      in modifyRequest_fn p w r2)"

definition modifyResponse_fn :: "'w Proxy \<Rightarrow> 'w ResponseModifyFunc" where
  "modifyResponse_fn p =
     modifyResponse_loop (resModifiers p) (length (resModifiers p)) nopResModifier"

definition modifyResponse :: "'w Proxy \<Rightarrow> 'w \<Rightarrow> response \<Rightarrow> error option \<times> 'w \<times> response" where
  "modifyResponse p w res = modifyResponse_fn p w res"

text \<open>
  \<^verbatim>\<open>errorHandler\<close>, which the reverse proxy calls with the error that \<^verbatim>\<open>modifyResponse\<close>
  returned: the status it writes to the client, if it writes one. The line it writes to
  the proxy's own logger is left out.
\<close>

definition errorHandler :: "error \<Rightarrow> int option" where
  "errorHandler err = (if errors_Is_Canceled err then None else Some 502)"

section \<open>Vocabulary of the properties\<close>

text \<open>
  A middleware that runs \<open>before\<close> on its argument, calls \<open>next\<close> once, and runs
  \<open>after\<close> on what \<open>next\<close> returned: the shape in which the order of the code before
  and after the call of \<open>next\<close> can be observed.
\<close>

definition req_around ::
  "('w \<times> request \<Rightarrow> 'w \<times> request) \<Rightarrow> ('w \<times> request \<Rightarrow> 'w \<times> request) \<Rightarrow>
   'w RequestModifyMiddleware" where
  "req_around before after next =
     (\<lambda>w req. after (case before (w, req) of (w1, req1) \<Rightarrow> next w1 req1))"

definition res_around ::
  "('w \<times> response \<Rightarrow> 'w \<times> response) \<Rightarrow>
   (error option \<times> 'w \<times> response \<Rightarrow> error option \<times> 'w \<times> response) \<Rightarrow>
   'w ResponseModifyMiddleware" where
  "res_around before after next =
     (\<lambda>w res. after (case before (w, res) of (w1, res1) \<Rightarrow> next w1 res1))"

text \<open>
  Code that writes a name in a trace, for a middleware that records when it runs: on
  the way in, on the way out of a request middleware, on the way out of a response
  middleware.
\<close>

definition trace_in :: "string \<Rightarrow> string list \<times> 'a \<Rightarrow> string list \<times> 'a" where
  "trace_in name = (\<lambda>(t, x). (t @ [''in '' @ name], x))"

definition req_trace_out :: "string \<Rightarrow> string list \<times> 'a \<Rightarrow> string list \<times> 'a" where
  "req_trace_out name = (\<lambda>(t, x). (t @ [''out '' @ name], x))"

definition res_trace_out ::
  "string \<Rightarrow> error option \<times> string list \<times> 'a \<Rightarrow> error option \<times> string list \<times> 'a" where
  "res_trace_out name = (\<lambda>(err, t, x). (err, t @ [''out '' @ name], x))"

section \<open>Concrete collaborators and exchanges\<close>

text \<open>
  Modelled from the spec: the implementation of \<^verbatim>\<open>Repository\<close> is not among the sources.
  This one keeps the request logs in a list. \<^verbatim>\<open>StoreRequestLog\<close> rejects a zero
  \<^verbatim>\<open>ProjectID\<close> with \<^verbatim>\<open>ErrProjectIDMustBeSet\<close>; \<^verbatim>\<open>StoreResponseLog\<close> attaches the response to
  the request log of the given identifier, which must exist.
\<close>

definition ErrRequestNotFound :: error where
  "ErrRequestNotFound = Err ''reqlog: request not found''"

definition ErrProjectIDMustBeSet :: error where
  "ErrProjectIDMustBeSet = Err ''reqlog: project ID must be set''"

definition memRepository :: "(RequestLog list) Repository" where
  "memRepository =
     \<lparr>StoreRequestLog = (\<lambda>r reqLog.
        if reqLog_ProjectID reqLog = 0 then (Some ErrProjectIDMustBeSet, r)
        else (None, r @ [reqLog])),
      StoreResponseLog = (\<lambda>r reqLogID resLog.
        if reqLogID \<in> set (map reqLog_ID r) then
          (None, map (\<lambda>l. if reqLog_ID l = reqLogID then l\<lparr>reqLog_Response := Some resLog\<rparr> else l) r)
        else (Some ErrRequestNotFound, r))\<rparr>"

text \<open>A repository whose every write fails, as one whose database is closed does.\<close>

definition closedRepository :: "(RequestLog list) Repository" where
  "closedRepository =
     \<lparr>StoreRequestLog = (\<lambda>r reqLog. (Some (Err ''database is closed''), r)),
      StoreResponseLog = (\<lambda>r reqLogID resLog. (Some (Err ''database is closed''), r))\<rparr>"

text \<open>
  A repository that records every request log it is passed, whatever it answers:
  \<open>outcome\<close> decides the answer from the logs recorded so far and the log passed.
\<close>

definition recordingRepository ::
  "(RequestLog list \<Rightarrow> RequestLog \<Rightarrow> error option) \<Rightarrow> (RequestLog list) Repository" where
  "recordingRepository outcome =
     \<lparr>StoreRequestLog = (\<lambda>r reqLog. (outcome r reqLog, r @ [reqLog])),
      StoreResponseLog = (\<lambda>r reqLogID resLog. (None, r))\<rparr>"

text \<open>
  The bytes \<^verbatim>\<open>world\<close>, a gzip stream of them (a ten-byte header, one block with the fixed
  Huffman code, the CRC-32 and the length), and a stand-in for the gzip library that
  decodes this one stream and rejects every other body.
\<close>

definition world_bytes :: "byte list" where
  "world_bytes = [119, 111, 114, 108, 100]"

definition gzip_world_bytes :: "byte list" where
  "gzip_world_bytes =
     [31, 139, 8, 0, 0, 0, 0, 0, 2, 3, 43, 207, 47, 202, 73, 1, 0, 67, 17, 119, 58, 5, 0, 0, 0]"

definition gunzip_world :: "reader \<Rightarrow> gzip_result" where
  "gunzip_world rd =
     (if rerr rd = None \<and> pending rd = gzip_world_bytes then Decoded world_bytes
      else NewReaderError (Err ''gzip: invalid header''))"

definition hello_bytes :: "byte list" where
  "hello_bytes = [104, 101, 108, 108, 111]"

definition example_service :: "'r Repository \<Rightarrow> ulid \<Rightarrow> bool \<Rightarrow> 'r service" where
  "example_service rp project bypass =
     \<lparr>bypassOutOfScopeRequests = bypass, activeProjectID = project,
      scope = (\<lambda>req body. url_Host (req_URL req) = ''in-scope.test''), repo = rp\<rparr>"

definition example_world :: "'r \<Rightarrow> 'r world" where
  "example_world r =
     \<lparr>w_repo = r, w_logs = [], w_spawned = [], w_ulids = (\<lambda>n. 1 + of_nat n), w_minted = 0\<rparr>"

text \<open>\<^verbatim>\<open>GET http://upstream.test/a\<close> without a body, and with a body given by a reader.\<close>

definition example_request :: "reader option \<Rightarrow> request" where
  "example_request b =
     \<lparr>req_Method = ''GET'',
      req_URL = \<lparr>url_Scheme = ''http'', url_Host = ''upstream.test'', url_Path = ''/a'',
                 url_RawQuery = []\<rparr>,
      req_Proto = ''HTTP/1.1'',
      req_Header = [''Host'' \<mapsto> [''upstream.test'']],
      req_Body = b,
      req_Host = ''upstream.test'',
      req_ctx = Map.empty\<rparr>"

text \<open>The request \<^verbatim>\<open>GET /x\<close> sent inside a tunnel to \<^verbatim>\<open>secure.test:443\<close>.\<close>

definition tunnel_request :: request where
  "tunnel_request =
     \<lparr>req_Method = ''GET'',
      req_URL = \<lparr>url_Scheme = [], url_Host = [], url_Path = ''/x'', url_RawQuery = []\<rparr>,
      req_Proto = ''HTTP/1.1'',
      req_Header = [''Host'' \<mapsto> [''secure.test'']],
      req_Body = None,
      req_Host = ''secure.test'',
      req_ctx = Map.empty\<rparr>"

text \<open>\<^verbatim>\<open>200 OK\<close> with the given headers and body, in answer to the given request.\<close>

definition example_response :: "header \<Rightarrow> reader \<Rightarrow> request \<Rightarrow> response" where
  "example_response h b req =
     \<lparr>res_Proto = ''HTTP/1.1'', res_StatusCode = 200, res_Status = ''200 OK'',
      res_Header = h, res_Body = b, res_Request = req\<rparr>"

definition gzip_header :: header where
  "gzip_header = [''Content-Encoding'' \<mapsto> [''gzip'']]"


text \<open>A proxy with the logger registered as its one request and one response modifier.\<close>

definition logging_Proxy :: "'r service \<Rightarrow> ('r world) Proxy" where
  "logging_Proxy svc =
     UseResponseModifier (UseRequestModifier NewProxy [RequestModifier svc]) [ResponseModifier svc]"

section \<open>Auxiliary facts\<close>

lemmas example_defs = example_service_def example_world_def example_request_def
  example_response_def nopReqModifier_def nopResModifier_def NewBuffer_def ReadAll_def logw_def
  WithValue_def Value_bool_def Value_ULID_def ulid_Compare_def

lemmas proxy_defs = logging_Proxy_def NewProxy_def UseRequestModifier_def
  UseResponseModifier_def modifyRequest_def modifyRequest_fn_def modifyResponse_def
  modifyResponse_fn_def

lemma ulid_Compare_zero: "(ulid_Compare a b = 0) = (a = b)"
  by (simp add: ulid_Compare_def)

lemma ReadAll_NewBuffer: "ReadAll (NewBuffer body) = (Inr body, NewBuffer [])"
  by (simp add: ReadAll_def NewBuffer_def)

text \<open>
  The loops compose from the right: after the last \<open>n\<close> iterations \<open>fn\<close> is wrapped
  in the first \<open>n\<close> middlewares, the first of them outermost.
\<close>

lemma modifyRequest_loop_foldr:
  "n \<le> length ms \<Longrightarrow> modifyRequest_loop ms n fn = foldr (\<lambda>m f. m f) (take n ms) fn"
proof (induction n arbitrary: fn)
  case 0
  then show ?case by simp
next
  case (Suc i)
  then have "i < length ms" by simp
  then have "take (Suc i) ms = take i ms @ [ms ! i]"
    by (rule take_Suc_conv_app_nth)
  with Suc show ?case by simp
qed

lemma modifyResponse_loop_foldr:
  "n \<le> length ms \<Longrightarrow> modifyResponse_loop ms n fn = foldr (\<lambda>m f. m f) (take n ms) fn"
proof (induction n arbitrary: fn)
  case 0
  then show ?case by simp
next
  case (Suc i)
  then have "i < length ms" by simp
  then have "take (Suc i) ms = take i ms @ [ms ! i]"
    by (rule take_Suc_conv_app_nth)
  with Suc show ?case by simp
qed

lemma modifyRequest_fn_foldr:
  "modifyRequest_fn p = foldr (\<lambda>m f. m f) (reqModifiers p) nopReqModifier"
  by (simp add: modifyRequest_fn_def modifyRequest_loop_foldr)

lemma modifyResponse_fn_foldr:
  "modifyResponse_fn p = foldr (\<lambda>m f. m f) (resModifiers p) nopResModifier"
  by (simp add: modifyResponse_fn_def modifyResponse_loop_foldr)

lemma modifyResponse_eq_fn: "modifyResponse p = modifyResponse_fn p"
  by (intro ext) (simp add: modifyResponse_def)

lemma reqModifiers_Use: "reqModifiers (UseRequestModifier p fns) = reqModifiers p @ fns"
  by (simp add: UseRequestModifier_def)

lemma resModifiers_Use: "resModifiers (UseResponseModifier p fns) = resModifiers p @ fns"
  by (simp add: UseResponseModifier_def)

text \<open>Registering middlewares one after the other leaves them in the order of the calls.\<close>

lemma reqModifiers_registered:
  "reqModifiers (fold (\<lambda>(before, after) q. UseRequestModifier q [req_around before after]) bas p)
   = reqModifiers p @ map (\<lambda>(before, after). req_around before after) bas"
  by (induction bas arbitrary: p) (auto simp add: UseRequestModifier_def)

lemma resModifiers_registered:
  "resModifiers (fold (\<lambda>(before, after) q. UseResponseModifier q [res_around before after]) bas p)
   = resModifiers p @ map (\<lambda>(before, after). res_around before after) bas"
  by (induction bas arbitrary: p) (auto simp add: UseResponseModifier_def)

lemma req_around_chain:
  "foldr (\<lambda>m f. m f) (map (\<lambda>(before, after). req_around before after) bas) nopReqModifier w req
   = foldr snd bas (fold fst bas (w, req))"
proof (induction bas arbitrary: w req)
  case Nil
  then show ?case by (simp add: nopReqModifier_def)
next
  case (Cons ba bas)
  obtain before after where ba: "ba = (before, after)" by (cases ba)
  obtain w1 req1 where b: "before (w, req) = (w1, req1)" by (cases "before (w, req)")
  show ?case using Cons.IH [of w1 req1] by (simp add: ba b req_around_def)
qed

lemma res_around_chain:
  "foldr (\<lambda>m f. m f) (map (\<lambda>(before, after). res_around before after) bas) nopResModifier w res
   = foldr snd bas (case fold fst bas (w, res) of (w', res') \<Rightarrow> (None, w', res'))"
proof (induction bas arbitrary: w res)
  case Nil
  then show ?case by (simp add: nopResModifier_def)
next
  case (Cons ba bas)
  obtain before after where ba: "ba = (before, after)" by (cases ba)
  obtain w1 res1 where b: "before (w, res) = (w1, res1)" by (cases "before (w, res)")
  show ?case using Cons.IH [of w1 res1] by (simp add: ba b res_around_def)
qed

section \<open>The logger: failed store of the request log\<close>

text \<open>
  What a failed store leads to, in general. A project is active, the request is not
  bypassed as out of scope, its body is captured, and the repository fails every store.
  If the context held neither key before, it holds neither after \<^verbatim>\<open>RequestModifier\<close>, and
  for a response to that request whose inner chain succeeds, \<^verbatim>\<open>ResponseModifier\<close> returns
  the error of the missing identifier.
\<close>

lemma store_failure_missing_ID:
  assumes active: "activeProjectID svc \<noteq> 0"
    and inscope: "\<not> bypassOutOfScopeRequests svc \<or> scope svc clone body"
    and inner: "next w req = (w1, req1)"
    and capture: "RequestModifier_capture req1 = Inr (body, req2, clone)"
    and fails: "\<And>r l. fst (StoreRequestLog (repo svc) r l) \<noteq> None"
    and fresh: "req_ctx req1 LogBypassedKey = None" "req_ctx req1 ReqLogIDKey = None"
    and out: "RequestModifier svc next w req = (w', req')"
    and rinner: "rnext v res = (None, v1, res1)"
    and same: "req_ctx (res_Request res1) = req_ctx req'"
  shows "ResponseModifier svc rnext v res
         = (Some (Err ''reqlog: request is missing ID''), v1, res1)"
proof -
  have ctx2: "req_ctx req2 = req_ctx req1"
    using capture
    by (auto simp add: RequestModifier_capture_def split: option.splits prod.splits sum.splits)
  obtain e r' where st: "StoreRequestLog (repo svc) (w_repo w1)
        \<lparr>reqLog_ID = w_ulids w1 (w_minted w1), reqLog_ProjectID = activeProjectID svc,
         reqLog_URL = req_URL clone, reqLog_Method = req_Method clone,
         reqLog_Proto = req_Proto clone, reqLog_Header = req_Header clone,
         reqLog_Body = body, reqLog_Response = None\<rparr> = (Some e, r')"
    using fails by (metis fst_conv not_None_eq surj_pair)
  have "req' = req2"
    using out inner capture active inscope st
    by (auto simp add: RequestModifier_def RequestModifier_log_def ulid_Compare_zero Let_def)
  with ctx2 same fresh have "req_ctx (res_Request res1) LogBypassedKey = None"
    and "req_ctx (res_Request res1) ReqLogIDKey = None"
    by simp_all
  with rinner show ?thesis
    by (simp add: ResponseModifier_def Value_bool_def Value_ULID_def)
qed

text \<open>
  C1. The claim is that a failed \<^verbatim>\<open>StoreRequestLog\<close> never makes the proxy answer 5xx. On
  the code it does. With a project active and a repository whose store fails,
  \<^verbatim>\<open>RequestModifier\<close> logs the failure and returns with neither \<^verbatim>\<open>LogBypassedKey\<close> nor
  \<^verbatim>\<open>ReqLogIDKey\<close> on the context; \<^verbatim>\<open>ResponseModifier\<close> then finds no identifier and returns
  the error \<^verbatim>\<open>reqlog: request is missing ID\<close>, for which \<^verbatim>\<open>errorHandler\<close> writes 502.
\<close>

theorem store_failure_renders_502:
  "(case modifyRequest (logging_Proxy (example_service closedRepository 1 False)) (example_world [])
           (example_request None) of
      (w1, req1) \<Rightarrow>
        w_logs w1 = [Errorw ''Failed to store request log.'' (Err ''database is closed'')]
        \<and> (case modifyResponse (logging_Proxy (example_service closedRepository 1 False)) w1
                   (example_response Map.empty (NewBuffer hello_bytes) req1) of
             (err, w2, res2) \<Rightarrow>
               err = Some (Err ''reqlog: request is missing ID'')
               \<and> map_option errorHandler err = Some (Some 502)))"
  by (simp add: proxy_defs example_defs RequestModifier_def RequestModifier_capture_def
      RequestModifier_log_def ResponseModifier_def closedRepository_def errorHandler_def Let_def)

section \<open>The logger: gzipped responses\<close>

text \<open>
  C2, as amended. Take a response with \<^verbatim>\<open>Content-Encoding: gzip\<close> that the response
  modifier captures (the inner chain succeeded, the exchange is not bypassed, the request
  carries an identifier, the body is read without error) and whose body the gzip library
  decodes. Then the modifier hands on the response with the bytes as they were read,
  still gzip-encoded, and starts one goroutine on a clone with the same bytes; what that
  goroutine passes to \<^verbatim>\<open>StoreResponseLog\<close> has the decoded bytes as its body.
\<close>

theorem ResponseModifier_gzip:
  assumes "next w res = (None, w1, res1)"
    and "\<not> Value_bool (req_ctx (res_Request res1)) LogBypassedKey"
    and "Value_ULID (req_ctx (res_Request res1)) ReqLogIDKey = Some reqLogID"
    and "ReadAll (res_Body res1) = (Inr raw, rd')"
    and "Header_Get (res_Header res1) ''Content-Encoding'' = ''gzip''"
    and "gz (NewBuffer raw) = Decoded plain"
  shows "ResponseModifier svc next w res =
           (None,
            w1\<lparr>w_spawned := w_spawned w1 @ [(reqLogID, res1\<lparr>res_Body := NewBuffer raw\<rparr>)]\<rparr>,
            res1\<lparr>res_Body := NewBuffer raw\<rparr>)
         \<and> storeResponse gz svc r reqLogID (res1\<lparr>res_Body := NewBuffer raw\<rparr>) =
             StoreResponseLog (repo svc) r reqLogID
               \<lparr>resLog_Proto = res_Proto res1, resLog_StatusCode = res_StatusCode res1,
                resLog_Status = res_Status res1, resLog_Header = res_Header res1,
                resLog_Body = plain\<rparr>"
  using assms
  by (simp add: ResponseModifier_def storeResponse_def ParseHTTPResponse_def ReadAll_NewBuffer)

theorem ResponseModifier_gzip_witness:
  "ResponseModifier (example_service memRepository 1 False) nopResModifier (example_world [])
     (example_response gzip_header (NewBuffer gzip_world_bytes)
        ((example_request None)\<lparr>req_ctx := [ReqLogIDKey \<mapsto> VULID 5]\<rparr>))
   = (None,
      (example_world [])\<lparr>w_spawned :=
         [(5, example_response gzip_header (NewBuffer gzip_world_bytes)
                ((example_request None)\<lparr>req_ctx := [ReqLogIDKey \<mapsto> VULID 5]\<rparr>))]\<rparr>,
      example_response gzip_header (NewBuffer gzip_world_bytes)
        ((example_request None)\<lparr>req_ctx := [ReqLogIDKey \<mapsto> VULID 5]\<rparr>))
   \<and> storeResponse gunzip_world (example_service memRepository 1 False) [] 5
       (example_response gzip_header (NewBuffer gzip_world_bytes)
          ((example_request None)\<lparr>req_ctx := [ReqLogIDKey \<mapsto> VULID 5]\<rparr>))
     = StoreResponseLog memRepository [] 5
         \<lparr>resLog_Proto = ''HTTP/1.1'', resLog_StatusCode = 200, resLog_Status = ''200 OK'',
          resLog_Header = gzip_header, resLog_Body = world_bytes\<rparr>"
  using ResponseModifier_gzip [where svc = "example_service memRepository 1 False"
      and ?next = nopResModifier and w = "example_world []" and ?w1.0 = "example_world []"
      and res = "example_response gzip_header (NewBuffer gzip_world_bytes)
        ((example_request None)\<lparr>req_ctx := [ReqLogIDKey \<mapsto> VULID 5]\<rparr>)"
      and ?res1.0 = "example_response gzip_header (NewBuffer gzip_world_bytes)
        ((example_request None)\<lparr>req_ctx := [ReqLogIDKey \<mapsto> VULID 5]\<rparr>)"
      and reqLogID = 5 and raw = gzip_world_bytes and rd' = "NewBuffer []"
      and gz = gunzip_world and plain = world_bytes and r = "[]"]
  by (simp add: example_service_def example_response_def example_request_def nopResModifier_def
      Value_bool_def Value_ULID_def ReadAll_def gzip_header_def Header_Get_def
      gunzip_world_def NewBuffer_def example_world_def)

text \<open>
  C2 as stated fails: the body handed back toward the client is not the decoded bytes.
  The logger stores a request, then sees the answer \<^verbatim>\<open>200 OK\<close> with
  \<^verbatim>\<open>Content-Encoding: gzip\<close> and the gzip stream of \<^verbatim>\<open>world\<close>. The response log that the
  goroutine persists has the body \<^verbatim>\<open>world\<close>; the response handed on keeps the header and
  the twenty-five bytes of the stream.
\<close>

theorem ResponseModifier_gzip_counterexample:
  "(case RequestModifier (example_service memRepository 1 False) nopReqModifier (example_world [])
           (example_request None) of
      (w1, req1) \<Rightarrow>
        (case ResponseModifier (example_service memRepository 1 False) nopResModifier w1
                (example_response gzip_header (NewBuffer gzip_world_bytes) req1) of
           (err, w2, res2) \<Rightarrow>
             err = None
             \<and> Header_Get (res_Header res2) ''Content-Encoding'' = ''gzip''
             \<and> map (map_option resLog_Body \<circ> reqLog_Response)
                  (w_repo (foldl (ResponseModifier_go gunzip_world
                       (example_service memRepository 1 False)) w2 (w_spawned w2)))
                 = [Some world_bytes]
             \<and> pending (res_Body res2) = gzip_world_bytes
             \<and> pending (res_Body res2) \<noteq> world_bytes))"
  by (simp add: example_defs RequestModifier_def RequestModifier_capture_def
      RequestModifier_log_def ResponseModifier_def memRepository_def Let_def
      ResponseModifier_go_def storeResponse_def ParseHTTPResponse_def gunzip_world_def
      gzip_header_def Header_Get_def world_bytes_def gzip_world_bytes_def)

text \<open>
  C3, as amended. For a response whose \<^verbatim>\<open>Content-Encoding\<close> is \<^verbatim>\<open>gzip\<close> and whose body the
  gzip library decodes, \<^verbatim>\<open>ParseHTTPResponse\<close> returns a \<^verbatim>\<open>ResponseLog\<close> whose body is the
  decoded bytes and whose header map is the response's own, unchanged, so that it still
  holds \<^verbatim>\<open>Content-Encoding: gzip\<close>. For any other response whose body is read without
  error, the body of the log is the bytes read, as they are.
\<close>

theorem ParseHTTPResponse_gzip:
  "(Header_Get (res_Header res) ''Content-Encoding'' = ''gzip'' \<and> gz (res_Body res) = Decoded plain
      \<longrightarrow> ParseHTTPResponse gz res =
             Inr (\<lparr>resLog_Proto = res_Proto res, resLog_StatusCode = res_StatusCode res,
                   resLog_Status = res_Status res, resLog_Header = res_Header res,
                   resLog_Body = plain\<rparr>, res\<lparr>res_Body := NewBuffer []\<rparr>))
   \<and> (Header_Get (res_Header res) ''Content-Encoding'' \<noteq> ''gzip''
        \<and> ReadAll (res_Body res) = (Inr body, rd')
      \<longrightarrow> ParseHTTPResponse gz res =
             Inr (\<lparr>resLog_Proto = res_Proto res, resLog_StatusCode = res_StatusCode res,
                   resLog_Status = res_Status res, resLog_Header = res_Header res,
                   resLog_Body = body\<rparr>, res\<lparr>res_Body := rd'\<rparr>))"
  by (simp add: ParseHTTPResponse_def NewBuffer_def ReadAll_def)

theorem ParseHTTPResponse_gzip_witness:
  "ParseHTTPResponse gunzip_world
       (example_response gzip_header (NewBuffer gzip_world_bytes) (example_request None)) =
     Inr (\<lparr>resLog_Proto = ''HTTP/1.1'', resLog_StatusCode = 200, resLog_Status = ''200 OK'',
           resLog_Header = gzip_header, resLog_Body = world_bytes\<rparr>,
          example_response gzip_header (NewBuffer []) (example_request None))
   \<and> ParseHTTPResponse gunzip_world
       (example_response Map.empty (NewBuffer hello_bytes) (example_request None)) =
     Inr (\<lparr>resLog_Proto = ''HTTP/1.1'', resLog_StatusCode = 200, resLog_Status = ''200 OK'',
           resLog_Header = Map.empty, resLog_Body = hello_bytes\<rparr>,
          example_response Map.empty (NewBuffer []) (example_request None))"
  using ParseHTTPResponse_gzip [of
      "example_response gzip_header (NewBuffer gzip_world_bytes) (example_request None)"
      gunzip_world world_bytes hello_bytes "NewBuffer []"]
    ParseHTTPResponse_gzip [of
      "example_response Map.empty (NewBuffer hello_bytes) (example_request None)"
      gunzip_world world_bytes hello_bytes "NewBuffer []"]
  by (simp add: gunzip_world_def gzip_header_def Header_Get_def example_response_def
      NewBuffer_def ReadAll_def)

text \<open>
  C3 as stated fails: the header map of the returned log still contains the entry
  \<^verbatim>\<open>Content-Encoding: gzip\<close>, beside the decoded body \<^verbatim>\<open>world\<close>.
\<close>

theorem ParseHTTPResponse_gzip_counterexample:
  "Header_Get
     (res_Header (example_response gzip_header (NewBuffer gzip_world_bytes) (example_request None)))
     ''Content-Encoding'' = ''gzip''
   \<and> (case ParseHTTPResponse gunzip_world
            (example_response gzip_header (NewBuffer gzip_world_bytes) (example_request None)) of
        Inl err \<Rightarrow> False
      | Inr (resLog, res') \<Rightarrow>
          resLog_Body resLog = world_bytes
          \<and> resLog_Header resLog ''Content-Encoding'' = Some [''gzip''])"
  by (simp add: ParseHTTPResponse_def gunzip_world_def gzip_header_def Header_Get_def example_defs)

section \<open>The logger: bypass and store on the request side\<close>







text \<open>
  C6. Plug in a repository that records every request log passed to its
  \<^verbatim>\<open>StoreRequestLog\<close>, whatever it then answers. Over one run of \<^verbatim>\<open>RequestModifier\<close> the
  logger passes at most one log, and every log it passes has the \<^verbatim>\<open>ProjectID\<close> that is
  active, which is not zero: with no project active it passes none.
\<close>

theorem StoreRequestLog_ProjectID:
  assumes "repo svc = recordingRepository outcome"
    and "next w req = (w1, req1)"
    and "RequestModifier svc next w req = (w', req')"
  shows "\<exists>ls. w_repo w' = w_repo w1 @ ls \<and> length ls \<le> 1
           \<and> (\<forall>l \<in> set ls. reqLog_ProjectID l = activeProjectID svc \<and> reqLog_ProjectID l \<noteq> 0)"
proof (cases "RequestModifier_capture req1")
  case (Inl a)
  with assms(2,3) have "w_repo w' = w_repo w1 @ []"
    by (auto simp add: RequestModifier_def logw_def split: prod.splits)
  then show ?thesis by (intro exI [of _ "[]"]) simp
next
  case (Inr b)
  obtain body req2 clone where b: "b = (body, req2, clone)" by (cases b)
  show ?thesis
  proof (cases "ulid_Compare (activeProjectID svc) 0 = 0
       \<or> (bypassOutOfScopeRequests svc \<and> \<not> scope svc clone body)")
    case True
    with assms(2,3) Inr b have "w_repo w' = w_repo w1 @ []"
      by (auto simp add: RequestModifier_def RequestModifier_log_def logw_def split: if_splits)
    then show ?thesis by (intro exI [of _ "[]"]) simp
  next
    case False
    define l where "l = \<lparr>reqLog_ID = w_ulids w1 (w_minted w1),
                       reqLog_ProjectID = activeProjectID svc,
                       reqLog_URL = req_URL clone,
                       reqLog_Method = req_Method clone,
                       reqLog_Proto = req_Proto clone,
                       reqLog_Header = req_Header clone,
                       reqLog_Body = body,
                       reqLog_Response = None\<rparr>"
    from False have nz: "activeProjectID svc \<noteq> 0" by (simp add: ulid_Compare_zero)
    from False assms Inr b have "w_repo w' = w_repo w1 @ [l]"
      by (auto simp add: RequestModifier_def RequestModifier_log_def logw_def Let_def l_def
          recordingRepository_def split: option.splits)
    moreover have "reqLog_ProjectID l = activeProjectID svc" by (simp add: l_def)
    ultimately show ?thesis using nz by (intro exI [of _ "[l]"]) simp
  qed
qed

theorem StoreRequestLog_ProjectID_witness:
  "map reqLog_ProjectID
     (w_repo (fst (RequestModifier
        (example_service (recordingRepository (\<lambda>r l. Some (Err ''database is closed''))) 7 False)
        nopReqModifier (example_world []) (example_request None)))) = [7]"
  using StoreRequestLog_ProjectID [where
      svc = "example_service (recordingRepository (\<lambda>r l. Some (Err ''database is closed''))) 7 False"
      and outcome = "\<lambda>r l. Some (Err ''database is closed'')"
      and ?next = nopReqModifier and w = "example_world []" and req = "example_request None"
      and ?w1.0 = "example_world []" and ?req1.0 = "example_request None"
      and w' = "fst (RequestModifier
        (example_service (recordingRepository (\<lambda>r l. Some (Err ''database is closed''))) 7 False)
        nopReqModifier (example_world []) (example_request None))"
      and req' = "snd (RequestModifier
        (example_service (recordingRepository (\<lambda>r l. Some (Err ''database is closed''))) 7 False)
        nopReqModifier (example_world []) (example_request None))"]
  by (simp add: example_defs RequestModifier_def RequestModifier_capture_def
      RequestModifier_log_def recordingRepository_def Let_def)

section \<open>The response modifier of the logger\<close>

text \<open>
  C9. When the inner chain returns an error, \<^verbatim>\<open>ResponseModifier\<close> returns that same error
  and nothing else happens: the response (its body unread and not replaced), the
  repository, the log and the list of started goroutines are exactly as the inner chain
  left them.
\<close>

theorem ResponseModifier_inner_error:
  assumes "next w res = (Some err, w1, res1)"
  shows "ResponseModifier svc next w res = (Some err, w1, res1)"
  using assms by (simp add: ResponseModifier_def)

theorem ResponseModifier_inner_error_witness:
  "ResponseModifier (example_service memRepository 1 False)
     (\<lambda>w res. (Some (Err ''inner''), w, res))
     (example_world []) (example_response Map.empty (NewBuffer hello_bytes) (example_request None))
   = (Some (Err ''inner''), example_world [],
      example_response Map.empty (NewBuffer hello_bytes) (example_request None))"
  by (rule ResponseModifier_inner_error) simp

text \<open>
  C10, as amended. When the context of the response's request carries \<^verbatim>\<open>LogBypassedKey\<close>
  with the value \<^verbatim>\<open>true\<close>, \<^verbatim>\<open>ResponseModifier\<close> returns exactly what the inner chain
  returned: success if the inner chain succeeded and the inner chain's error if it
  failed, with the same response, its body and headers untouched, the same repository
  and no goroutine started.
\<close>

theorem ResponseModifier_bypassed:
  assumes "next w res = (err, w1, res1)"
    and "req_ctx (res_Request res1) LogBypassedKey = Some (VBool True)"
  shows "ResponseModifier svc next w res = (err, w1, res1)"
  using assms by (cases err) (simp_all add: ResponseModifier_def Value_bool_def)

theorem ResponseModifier_bypassed_witness:
  "ResponseModifier (example_service memRepository 1 False) nopResModifier (example_world [])
     (example_response Map.empty (NewBuffer hello_bytes)
        ((example_request None)\<lparr>req_ctx := [LogBypassedKey \<mapsto> VBool True]\<rparr>))
   = (None, example_world [],
      example_response Map.empty (NewBuffer hello_bytes)
        ((example_request None)\<lparr>req_ctx := [LogBypassedKey \<mapsto> VBool True]\<rparr>))"
  by (rule ResponseModifier_bypassed) (simp_all add: nopResModifier_def example_response_def)

text \<open>
  C10 as stated fails when the inner chain fails: the flag is on the context, and
  \<^verbatim>\<open>ResponseModifier\<close> returns the inner chain's error, not success.
\<close>

theorem ResponseModifier_bypassed_counterexample:
  "req_ctx (res_Request (example_response Map.empty (NewBuffer hello_bytes)
        ((example_request None)\<lparr>req_ctx := [LogBypassedKey \<mapsto> VBool True]\<rparr>))) LogBypassedKey
     = Some (VBool True)
   \<and> fst (ResponseModifier (example_service memRepository 1 False)
        (\<lambda>w res. (Some (Err ''inner chain failed''), w, res)) (example_world [])
        (example_response Map.empty (NewBuffer hello_bytes)
           ((example_request None)\<lparr>req_ctx := [LogBypassedKey \<mapsto> VBool True]\<rparr>)))
     = Some (Err ''inner chain failed'')"
  by (simp add: ResponseModifier_def example_response_def)

section \<open>The engine: composition of the pipelines and the URL of a tunnelled request\<close>

text \<open>
  C7. In the statement \<open>r\<close> is the request as \<^verbatim>\<open>modifyRequest\<close> hands it to the chain: the
  URL fixed after a tunnel and \<^verbatim>\<open>X-Forwarded-For\<close> set to nil. Registration appends, so
  the list of a pipeline is in registration order. \<^verbatim>\<open>modifyRequest\<close> runs on \<open>r\<close> the
  function built by its loop; built from an empty list this is the no-op leaf, and built
  from \<open>m # ms\<close> it is \<open>m\<close> applied to the one built from \<open>ms\<close>: the first
  registered middleware is outermost, gets the rest of the chain as its \<open>next\<close>, and
  decides when to call it. For middlewares that run code, call \<open>next\<close> and run code
  again, registered one after the other on a new proxy, \<^verbatim>\<open>modifyRequest\<close> runs the code
  before \<open>next\<close> in registration order (\<open>fold\<close> goes from the first to the last), then
  the leaf, then the code after \<open>next\<close> in reverse registration order (\<open>foldr\<close>
  applies the last first). \<^verbatim>\<open>modifyResponse\<close> does the same with the response pipeline,
  on the response it is given, and its leaf returns no error.
\<close>

theorem pipeline_order:
  "(let r = req\<lparr>req_URL := (if url_Scheme (req_URL req) = []
                             then (req_URL req)\<lparr>url_Host := req_Host req, url_Scheme := ''https''\<rparr>
                             else req_URL req),
               req_Header := (req_Header req)(''X-Forwarded-For'' \<mapsto> [])\<rparr> in
     reqModifiers (UseRequestModifier p fns) = reqModifiers p @ fns
   \<and> modifyRequest p w req = modifyRequest_fn p w r
   \<and> modifyRequest_fn (p\<lparr>reqModifiers := []\<rparr>) = nopReqModifier
   \<and> modifyRequest_fn (p\<lparr>reqModifiers := m # ms\<rparr>)
       = m (modifyRequest_fn (p\<lparr>reqModifiers := ms\<rparr>))
   \<and> modifyRequest (p\<lparr>reqModifiers := []\<rparr>) w req = (w, r)
   \<and> modifyRequest (p\<lparr>reqModifiers := m # ms\<rparr>) w req
       = m (modifyRequest_fn (p\<lparr>reqModifiers := ms\<rparr>)) w r
   \<and> modifyRequest
         (fold (\<lambda>(before, after) q. UseRequestModifier q [req_around before after]) bas NewProxy)
         w req
       = foldr snd bas (fold fst bas (w, r))
   \<and> resModifiers (UseResponseModifier p gns) = resModifiers p @ gns
   \<and> modifyResponse (p\<lparr>resModifiers := []\<rparr>) w res = (None, w, res)
   \<and> modifyResponse (p\<lparr>resModifiers := n # ns\<rparr>) w res
       = n (modifyResponse (p\<lparr>resModifiers := ns\<rparr>)) w res
   \<and> modifyResponse
         (fold (\<lambda>(before, after) q. UseResponseModifier q [res_around before after]) cas NewProxy)
         w res
       = foldr snd cas (case fold fst cas (w, res) of (w', res') \<Rightarrow> (None, w', res')))"
proof -
  have prep: "modifyRequest q w req = modifyRequest_fn q w
      (req\<lparr>req_URL := (if url_Scheme (req_URL req) = []
                             then (req_URL req)\<lparr>url_Host := req_Host req, url_Scheme := ''https''\<rparr>
                             else req_URL req),
               req_Header := (req_Header req)(''X-Forwarded-For'' \<mapsto> [])\<rparr>)" for q
    by (simp add: modifyRequest_def Let_def)
  show ?thesis
    unfolding Let_def prep modifyResponse_eq_fn
    by (simp add: modifyRequest_fn_foldr modifyResponse_fn_foldr req_around_chain res_around_chain
        reqModifiers_registered resModifiers_registered NewProxy_def
        reqModifiers_Use resModifiers_Use nopReqModifier_def nopResModifier_def)
qed

theorem pipeline_order_witness:
  "modifyRequest
     (fold (\<lambda>(before, after) q. UseRequestModifier q [req_around before after])
        [(trace_in ''A'', req_trace_out ''A''), (trace_in ''B'', req_trace_out ''B''),
         (trace_in ''C'', req_trace_out ''C'')] NewProxy) [] (example_request None)
   = ([''in A'', ''in B'', ''in C'', ''out C'', ''out B'', ''out A''],
      (example_request None)
        \<lparr>req_Header := [''Host'' \<mapsto> [''upstream.test''], ''X-Forwarded-For'' \<mapsto> []]\<rparr>)
   \<and> modifyResponse
     (fold (\<lambda>(before, after) q. UseResponseModifier q [res_around before after])
        [(trace_in ''A'', res_trace_out ''A''), (trace_in ''B'', res_trace_out ''B'')] NewProxy) []
       (example_response Map.empty (NewBuffer hello_bytes) (example_request None))
   = (None, [''in A'', ''in B'', ''out B'', ''out A''],
      example_response Map.empty (NewBuffer hello_bytes) (example_request None))"
  using pipeline_order [where p = NewProxy
      and bas = "[(trace_in ''A'', req_trace_out ''A''), (trace_in ''B'', req_trace_out ''B''),
         (trace_in ''C'', req_trace_out ''C'')]"
      and w = "[]" and req = "example_request None"
      and cas = "[(trace_in ''A'', res_trace_out ''A''), (trace_in ''B'', res_trace_out ''B'')]"
      and res = "example_response Map.empty (NewBuffer hello_bytes) (example_request None)"
      and fns = "[]" and gns = "[]" and m = id and ms = "[]" and n = id and ns = "[]"]
  by (simp add: trace_in_def req_trace_out_def res_trace_out_def Let_def example_request_def)

text \<open>
  C8. \<^verbatim>\<open>modifyRequest\<close> calls the composed chain on a request \<open>r'\<close> that differs from
  the one it was given in the URL and in the \<^verbatim>\<open>X-Forwarded-For\<close> header only. If the
  URL's scheme was empty, the scheme of \<open>r'\<close> is \<^verbatim>\<open>https\<close> and the URL's host is the
  request's \<^verbatim>\<open>Host\<close>; if it was not, scheme and host are the ones given. The rest of
  the URL and the \<^verbatim>\<open>Host\<close> are the ones given in both cases.
\<close>

theorem modifyRequest_fixes_url:
  "\<exists>r'. modifyRequest p w r = modifyRequest_fn p w r'
     \<and> url_Scheme (req_URL r')
         = (if url_Scheme (req_URL r) = [] then ''https'' else url_Scheme (req_URL r))
     \<and> url_Host (req_URL r')
         = (if url_Scheme (req_URL r) = [] then req_Host r else url_Host (req_URL r))
     \<and> url_Path (req_URL r') = url_Path (req_URL r)
     \<and> url_RawQuery (req_URL r') = url_RawQuery (req_URL r)
     \<and> req_Host r' = req_Host r
     \<and> r' = r\<lparr>req_URL := req_URL r', req_Header := (req_Header r)(''X-Forwarded-For'' \<mapsto> [])\<rparr>"
  by (auto simp add: modifyRequest_def Let_def)

theorem modifyRequest_fixes_url_witness:
  "\<exists>r'. modifyRequest NewProxy (example_world []) tunnel_request = (example_world [], r')
     \<and> url_Scheme (req_URL r') = ''https''
     \<and> url_Host (req_URL r') = ''secure.test''
     \<and> url_Path (req_URL r') = ''/x''"
  using modifyRequest_fixes_url [of NewProxy "example_world []" tunnel_request]
  by (auto simp add: tunnel_request_def modifyRequest_fn_def NewProxy_def nopReqModifier_def)

end
